theory Spec2Isabelle
  imports Main "HOL-Library.Sublist"
begin

section \<open>Python strings\<close>

text \<open>
  A Python \<^verbatim>\<open>str\<close> is a sequence of Unicode code points. It is modelled as a list of
  natural numbers, so that slicing (\<^verbatim>\<open>[:40]\<close>) counts code points and the literals of
  the source that lie outside ASCII (the bullet, the apostrophe and the emoji of the canned
  replies) are single elements. \<open>str\<close> turns an ASCII literal into its code points.
\<close>

type_synonym pystr = "nat list"

definition str :: "string \<Rightarrow> pystr" where
  "str cs = map of_char cs"

text \<open>
  \<^verbatim>\<open>str.strip()\<close> without argument removes leading and trailing white space. The code
  points below are the ones for which \<^verbatim>\<open>str.isspace\<close> holds.
\<close>

definition isspace :: "nat \<Rightarrow> bool" where
  "isspace c \<longleftrightarrow>
     (9 \<le> c \<and> c \<le> 13) \<or> (28 \<le> c \<and> c \<le> 32) \<or> c = 133 \<or> c = 160 \<or> c = 5760 \<or>
     (8192 \<le> c \<and> c \<le> 8202) \<or> c = 8232 \<or> c = 8233 \<or> c = 8239 \<or> c = 8287 \<or> c = 12288"

definition lstrip :: "pystr \<Rightarrow> pystr" where
  "lstrip s = dropWhile isspace s"

definition rstrip :: "pystr \<Rightarrow> pystr" where
  "rstrip s = rev (dropWhile isspace (rev s))"

definition strip :: "pystr \<Rightarrow> pystr" where
  "strip s = rstrip (lstrip s)"

text \<open>
  \<^verbatim>\<open>str.lower()\<close>. The keyword tests of the source look for ASCII keywords in the
  lowered text, so what matters is where the lowered text has ASCII letters. The function
  below maps \<open>A\<close>..\<open>Z\<close> to \<open>a\<close>..\<open>z\<close> and the two code points outside ASCII whose
  lower case contains an ASCII letter (U+0130 to \<open>i\<close> followed by U+0307, U+212A to
  \<open>k\<close>); every other code point is kept. Python maps further letters outside ASCII to
  letters outside ASCII, which no keyword contains.
\<close>

definition lower_cp :: "nat \<Rightarrow> pystr" where
  "lower_cp c =
     (if 65 \<le> c \<and> c \<le> 90 then [c + 32]
      else if c = 304 then [105, 775]
      else if c = 8490 then [107]
      else [c])"

definition lower :: "pystr \<Rightarrow> pystr" where
  "lower s = concat (map lower_cp s)"

text \<open>
  The operator \<^verbatim>\<open>sub in s\<close> on strings: \<open>sub\<close> occurs in \<open>s\<close> as a contiguous
  substring. The search tries every start position from the left.
\<close>

fun py_in :: "pystr \<Rightarrow> pystr \<Rightarrow> bool" where
  "py_in sub [] = (sub = [])"
| "py_in sub (c # cs) = (prefix sub (c # cs) \<or> py_in sub cs)"

text \<open>
  \<^verbatim>\<open>s.replace(old, "")\<close> for a non-empty \<open>old\<close>: scanning from the left, every
  occurrence found is dropped and the scan goes on behind it. With an empty \<open>old\<close> and an
  empty replacement Python returns \<open>s\<close>.
\<close>

fun remove_all :: "pystr \<Rightarrow> pystr \<Rightarrow> pystr" where
  "remove_all old [] = []"
| "remove_all old (c # cs) =
     (if old \<noteq> [] \<and> prefix old (c # cs)
      then remove_all old (drop (length old) (c # cs))
      else c # remove_all old cs)"

section \<open>Utility functions\<close>

definition greetings :: "pystr list" where
  "greetings = [str ''hi'', str ''hello'', str ''hey'', str ''good morning'', str ''good evening'']"

definition is_greeting :: "pystr \<Rightarrow> bool" where
  "is_greeting message = list_ex (\<lambda>word. py_in word (lower message)) greetings"

definition banking_terms :: "pystr list" where
  "banking_terms =
     [str ''account'', str ''loan'', str ''emi'', str ''interest'',
      str ''card'', str ''atm'', str ''balance'', str ''transaction'',
      str ''ifsc'', str ''branch'', str ''bank'']"

definition is_banking_related :: "pystr \<Rightarrow> bool" where
  "is_banking_related message = list_ex (\<lambda>term. py_in term (lower message)) banking_terms"

section \<open>Messages, chats and the session state\<close>

text \<open>
  A message is the dictionary \<^verbatim>\<open>{"role": ..., "content": ..., "time": ...}\<close>; the
  role is the string \<^verbatim>\<open>"user"\<close> or \<^verbatim>\<open>"bot"\<close>. Messages are never changed after
  they are built, so they are values.
\<close>

record message =
  role :: pystr
  content :: pystr
  time :: pystr

text \<open>
  The lists of messages are Python list objects: \<^verbatim>\<open>append\<close> changes them in place, and
  selecting a saved chat makes \<^verbatim>\<open>current_chat\<close> the very list the history entry holds.
  They live in a store addressed by references; \<^verbatim>\<open>[]\<close> and \<^verbatim>\<open>.copy()\<close> allocate
  the next free reference.
\<close>

type_synonym ref = nat

record chat =
  ident :: pystr
  title :: pystr
  messages :: ref

record state =
  heap :: "ref \<Rightarrow> message list"
  next_ref :: ref
  chat_history :: "chat list"
  current_chat :: ref
  chat_id :: pystr
  user_input :: pystr

text \<open>The session state after initialisation; \<open>uid\<close> is the value of \<^verbatim>\<open>str(uuid.uuid4())\<close>.\<close>

definition initial :: "pystr \<Rightarrow> state" where
  "initial uid =
     \<lparr>heap = (\<lambda>_. []), next_ref = 1, chat_history = [], current_chat = 0,
      chat_id = uid, user_input = []\<rparr>"

definition transcript :: "state \<Rightarrow> message list" where
  "transcript s = heap s (current_chat s)"

fun generate_chat_title :: "message list \<Rightarrow> pystr" where
  "generate_chat_title [] = str ''New Chat''"
| "generate_chat_title (msg # msgs) =
     (if role msg = str ''user'' then take 40 (content msg) else generate_chat_title msgs)"


definition save_chat :: "state \<Rightarrow> state" where
  "save_chat s =
     (if heap s (current_chat s) = [] then s
      else
        let title = generate_chat_title (heap s (current_chat s))
        in s\<lparr>heap := (heap s)(next_ref s := heap s (current_chat s)),
             next_ref := Suc (next_ref s),
             chat_history :=
               \<lparr>ident = chat_id s, title = title, messages = next_ref s\<rparr> # chat_history s\<rparr>)"

section \<open>Ollama response handler\<close>

text \<open>
  The model service is outside the program. What one \<^verbatim>\<open>requests.post\<close> followed by
  \<^verbatim>\<open>response.json().get("response", "")\<close> can meet is a value of \<open>http\<close>: the request
  raises (no connection, timeout), the body is not JSON, the JSON value is not an object,
  or it is an object, in which the key \<^verbatim>\<open>"response"\<close> is absent, holds a string or holds
  something else. The status code is not looked at by the source.

  The exceptions of the program: the three that the model call can raise, and the one
  with which Streamlit refuses a widget key used twice in one run of the script.
\<close>

datatype error = RequestException | JSONDecodeError | AttributeError | DuplicateWidgetID

datatype json = JString pystr | JOther

datatype body = NotJson | NotObject | Object "json option"

datatype http = Failed | Replied body

record payload =
  model :: pystr
  prompt :: pystr
  stream :: bool

definition OLLAMA_MODEL :: pystr where
  "OLLAMA_MODEL = str ''tinyllama''"

definition nl :: pystr where
  "nl = [10]"

definition system_prompt :: pystr where
  "system_prompt =
     str ''You are BankBot, a polite banking assistant.'' @ nl @
     str ''Answer only banking-related questions.'' @ nl @
     str ''Keep responses short and easy to read.'' @ nl @
     str ''Use bullet points when possible.'' @ nl @
     str ''Do not explain rules or instructions.'' @ nl"

definition full_prompt :: "pystr \<Rightarrow> pystr" where
  "full_prompt user_question =
     nl @ system_prompt @ nl @ nl @ str ''Customer Question:'' @ nl @ user_question @ nl @ nl @
     str ''BankBot Answer:'' @ nl"

text \<open>The request body; its \<^verbatim>\<open>options\<close> entry is the constant temperature 0.3.\<close>

definition ollama_payload :: "pystr \<Rightarrow> payload" where
  "ollama_payload user_question =
     \<lparr>model = OLLAMA_MODEL, prompt = full_prompt user_question, stream = False\<rparr>"

definition blocked_phrases :: "pystr list" where
  "blocked_phrases = [str ''You are BankBot'', str ''Answer only'', str ''Customer Question'']"

text \<open>The safety cleanup: one \<^verbatim>\<open>replace\<close> per blocked phrase, in order, then \<^verbatim>\<open>strip\<close>.\<close>

definition sanitize :: "pystr \<Rightarrow> pystr" where
  "sanitize reply_text = strip (foldl (\<lambda>text phrase. remove_all phrase text) reply_text blocked_phrases)"

definition get_ollama_response :: "(payload \<Rightarrow> http) \<Rightarrow> pystr \<Rightarrow> error + pystr" where
  "get_ollama_response post user_question =
     (case post (ollama_payload user_question) of
        Failed \<Rightarrow> Inl RequestException
      | Replied NotJson \<Rightarrow> Inl JSONDecodeError
      | Replied NotObject \<Rightarrow> Inl AttributeError
      | Replied (Object None) \<Rightarrow> Inr (sanitize [])
      | Replied (Object (Some (JString reply_text))) \<Rightarrow> Inr (sanitize reply_text)
      | Replied (Object (Some JOther)) \<Rightarrow> Inl AttributeError)"

section \<open>Message processing\<close>

definition greeting_reply :: pystr where
  "greeting_reply =
     str ''Hello '' @ [128075] @ nl @ nl @
     str ''I'' @ [8217] @ str ''m **BankBot**, your banking assistant.'' @ nl @ nl @
     str ''You can ask me about:'' @ nl @
     [8226] @ str '' Opening an account'' @ nl @
     [8226] @ str '' Loans & EMI'' @ nl @
     [8226] @ str '' Cards & ATM services''"

definition off_topic_reply :: pystr where
  "off_topic_reply =
     str ''I'' @ [8217] @ str ''m here to help with **banking-related queries only**.'' @ nl @ nl @
     str ''Please ask about:'' @ nl @
     [8226] @ str '' Accounts'' @ nl @
     [8226] @ str '' Loans'' @ nl @
     [8226] @ str '' Cards'' @ nl @
     [8226] @ str '' ATM services''"

text \<open>
  What is outside the program during one turn: the two readings of the clock
  (\<^verbatim>\<open>current_time()\<close> is called once per stored message) and the model service.
\<close>

record world =
  time_user :: pystr
  time_bot :: pystr
  post :: "payload \<Rightarrow> http"

text \<open>
  A call either returns or raises; in both cases the session state is what the call has
  made of it up to that point. \<open>posts\<close> lists the requests sent to the model service.
\<close>

record run =
  raised :: "error option"
  after :: state
  posts :: "payload list"

definition append_current :: "message \<Rightarrow> state \<Rightarrow> state" where
  "append_current msg s =
     s\<lparr>heap := (heap s)(current_chat s := heap s (current_chat s) @ [msg])\<rparr>"

definition send_message :: "world \<Rightarrow> state \<Rightarrow> run" where
  "send_message w s =
     (let user_text = strip (user_input s) in
      if user_text = [] then \<lparr>raised = None, after = s, posts = []\<rparr>
      else
        let s1 = append_current \<lparr>role = str ''user'', content = user_text, time = time_user w\<rparr> s;
            store = (\<lambda>bot_reply sent.
              \<lparr>raised = None,
               after = (append_current
                  \<lparr>role = str ''bot'', content = bot_reply, time = time_bot w\<rparr> s1)
                  \<lparr>user_input := []\<rparr>,
               posts = sent\<rparr>)
        in if is_greeting user_text then store greeting_reply []
           else if \<not> is_banking_related user_text then store off_topic_reply []
           else (case get_ollama_response (post w) user_text of
                   Inl e \<Rightarrow> \<lparr>raised = Some e, after = s1, posts = [ollama_payload user_text]\<rparr>
                 | Inr bot_reply \<Rightarrow> store bot_reply [ollama_payload user_text]))"

text \<open>
  The text input widget writes what was typed into \<^verbatim>\<open>user_input\<close>; the Send button
  then runs \<open>send_message\<close>.
\<close>

definition submit :: "world \<Rightarrow> pystr \<Rightarrow> state \<Rightarrow> run" where
  "submit w text s = send_message w (s\<lparr>user_input := text\<rparr>)"

text \<open>
  The three-way branch of \<open>send_message\<close>, as a function of the text: the greeting test
  comes first, then the banking test.
\<close>

datatype classification = Greeting | BankingRelated | OffTopic

definition classify :: "pystr \<Rightarrow> classification" where
  "classify user_text =
     (if is_greeting user_text then Greeting
      else if \<not> is_banking_related user_text then OffTopic
      else BankingRelated)"

section \<open>Sidebar\<close>






section \<open>Notions used in the statements\<close>


text \<open>The reply a turn produces for a trimmed text, or the error the model call raises.\<close>

definition bot_reply_for :: "world \<Rightarrow> pystr \<Rightarrow> error + pystr" where
  "bot_reply_for w user_text =
     (case classify user_text of
        Greeting \<Rightarrow> Inr greeting_reply
      | OffTopic \<Rightarrow> Inr off_topic_reply
      | BankingRelated \<Rightarrow> get_ollama_response (post w) user_text)"

definition user_message :: "world \<Rightarrow> pystr \<Rightarrow> message" where
  "user_message w text = \<lparr>role = str ''user'', content = strip text, time = time_user w\<rparr>"

definition bot_message :: "world \<Rightarrow> pystr \<Rightarrow> message" where
  "bot_message w reply = \<lparr>role = str ''bot'', content = reply, time = time_bot w\<rparr>"

text \<open>Example worlds: a model service that cannot be reached, and one that answers.\<close>

definition w_down :: world where
  "w_down = \<lparr>time_user = str ''10:00'', time_bot = str ''10:01'', post = (\<lambda>_. Failed)\<rparr>"

definition w_up :: world where
  "w_up = \<lparr>time_user = str ''10:00'', time_bot = str ''10:01'',
            post = (\<lambda>_. Replied (Object (Some (JString (str ''Visit a branch.'')))))\<rparr>"

definition w_nofield :: world where
  "w_nofield = \<lparr>time_user = str ''10:00'', time_bot = str ''10:01'',
                 post = (\<lambda>_. Replied (Object None))\<rparr>"

definition s_fresh :: state where
  "s_fresh = initial (str ''a'')"

text \<open>
  Example states: after one greeting turn; and after that chat was saved, continued by a
  second greeting turn and saved again.
\<close>

definition s_hi :: state where
  "s_hi = after (submit w_down (str ''hi'') s_fresh)"






section \<open>The classifier\<close>

lemmas string_eval = str_def lower_def lower_cp_def strip_def lstrip_def rstrip_def isspace_def









section \<open>One turn of the conversation\<close>

lemma bot_reply_for_unfold:
  "bot_reply_for w t =
     (if is_greeting t then Inr greeting_reply
      else if \<not> is_banking_related t then Inr off_topic_reply
      else get_ollama_response (post w) t)"
  by (simp add: bot_reply_for_def classify_def)

lemma submit_returns:
  assumes "strip text \<noteq> []" and "bot_reply_for w (strip text) = Inr reply"
  shows "submit w text s =
     \<lparr>raised = None,
      after = (append_current (bot_message w reply)
                 (append_current (user_message w text) (s\<lparr>user_input := text\<rparr>)))\<lparr>user_input := []\<rparr>,
      posts = (if classify (strip text) = BankingRelated then [ollama_payload (strip text)] else [])\<rparr>"
  using assms
  by (auto simp: submit_def send_message_def Let_def bot_reply_for_unfold classify_def
      user_message_def bot_message_def split: sum.splits if_splits)

lemma submit_raises:
  assumes "strip text \<noteq> []" and "bot_reply_for w (strip text) = Inl e"
  shows "submit w text s =
     \<lparr>raised = Some e, after = append_current (user_message w text) (s\<lparr>user_input := text\<rparr>),
      posts = [ollama_payload (strip text)]\<rparr>"
  using assms
  by (auto simp: submit_def send_message_def Let_def bot_reply_for_unfold
      user_message_def split: sum.splits if_splits)

lemma transcript_append_current [simp]:
  "transcript (append_current m s) = transcript s @ [m]"
  by (simp add: transcript_def append_current_def)

lemma append_current_fields [simp]:
  "chat_history (append_current m s) = chat_history s"
  "current_chat (append_current m s) = current_chat s"
  "next_ref (append_current m s) = next_ref s"
  "chat_id (append_current m s) = chat_id s"
  "user_input (append_current m s) = user_input s"
  by (simp_all add: append_current_def)

lemma heap_append_current:
  "heap (append_current m s) r = (if r = current_chat s then heap s r @ [m] else heap s r)"
  by (simp add: append_current_def)

lemma transcript_user_input [simp]: "transcript (s\<lparr>user_input := t\<rparr>) = transcript s"
  by (simp add: transcript_def)

lemmas classify_eval =
  classify_def is_greeting_def is_banking_related_def greetings_def banking_terms_def string_eval

lemma sanitize_Nil: "sanitize [] = []"
  by (simp add: sanitize_def blocked_phrases_def strip_def lstrip_def rstrip_def)

text \<open>
  C6. A submission whose trimmed text is empty changes nothing: the call returns, no
  message is stored, the session state is as before (the input field keeps what was
  typed), and no request is sent to the model service.
\<close>

theorem submit_blank_is_noop:
  assumes "strip text = []"
  shows "submit w text s = \<lparr>raised = None, after = s\<lparr>user_input := text\<rparr>, posts = []\<rparr> \<and>
         transcript (after (submit w text s)) = transcript s"
  using assms by (simp add: submit_def send_message_def)

theorem submit_blank_is_noop_witness:
  "strip (str ''   '') = [] \<and>
   submit w_down (str ''   '') s_fresh =
     \<lparr>raised = None, after = s_fresh\<lparr>user_input := str ''   ''\<rparr>, posts = []\<rparr> \<and>
   transcript (after (submit w_down (str ''   '') s_fresh)) = transcript s_fresh"
proof -
  have h: "strip (str ''   '') = []" by (simp add: string_eval)
  from submit_blank_is_noop [OF h, of w_down s_fresh] h show ?thesis by simp
qed

text \<open>
  C5, as amended. When the trimmed text is not empty and the reply is produced (a canned
  reply, or a model call that returns), the turn stores exactly two messages at the end of
  the active transcript: the user message with the trimmed text, then the bot message with
  the reply. The messages already there keep their places, and no other list of messages
  and no history entry is touched.
\<close>

theorem submit_appends_user_then_bot:
  assumes "strip text \<noteq> []" and "bot_reply_for w (strip text) = Inr reply"
  shows "raised (submit w text s) = None \<and>
         transcript (after (submit w text s)) =
           transcript s @ [user_message w text, bot_message w reply] \<and>
         current_chat (after (submit w text s)) = current_chat s \<and>
         chat_history (after (submit w text s)) = chat_history s \<and>
         (\<forall>r. r \<noteq> current_chat s \<longrightarrow> heap (after (submit w text s)) r = heap s r)"
  unfolding submit_returns [OF assms] by (simp add: transcript_def heap_append_current)

theorem submit_appends_user_then_bot_witness:
  "strip (str '' hello '') \<noteq> [] \<and>
   bot_reply_for w_down (strip (str '' hello '')) = Inr greeting_reply \<and>
   raised (submit w_down (str '' hello '') s_fresh) = None \<and>
   transcript (after (submit w_down (str '' hello '') s_fresh)) =
     [user_message w_down (str '' hello ''), bot_message w_down greeting_reply]"
proof -
  have h1: "strip (str '' hello '') \<noteq> []" by (simp add: string_eval)
  have h2: "bot_reply_for w_down (strip (str '' hello '')) = Inr greeting_reply"
    by (simp add: bot_reply_for_def classify_eval)
  have t: "transcript s_fresh = []" by (simp add: s_fresh_def initial_def transcript_def)
  from submit_appends_user_then_bot [OF h1 h2, of s_fresh] h1 h2 t show ?thesis by simp
qed

text \<open>
  C5 as stated fails: with a banking text and a model service that cannot be reached, the
  turn stores the user message only and raises.
\<close>

theorem submit_two_messages_counterexample:
  "strip (str ''loan'') \<noteq> [] \<and>
   raised (submit w_down (str ''loan'') s_fresh) = Some RequestException \<and>
   transcript (after (submit w_down (str ''loan'') s_fresh)) = [user_message w_down (str ''loan'')]"
proof -
  have h1: "strip (str ''loan'') \<noteq> []" by (simp add: string_eval)
  have h2: "bot_reply_for w_down (strip (str ''loan'')) = Inl RequestException"
    by (simp add: bot_reply_for_def classify_eval get_ollama_response_def w_down_def)
  have t: "transcript s_fresh = []" by (simp add: s_fresh_def initial_def transcript_def)
  show ?thesis unfolding submit_raises [OF h1 h2] using h1 t by simp
qed

text \<open>
  C10. A turn on a banking text is not atomic: the user message is stored, then the model
  service is called, and when that call raises, the error leaves the turn with the user
  message in the transcript and no bot message after it.
\<close>

theorem submit_keeps_user_message_on_failure:
  assumes "strip text \<noteq> []" and "classify (strip text) = BankingRelated"
    and "get_ollama_response (post w) (strip text) = Inl e"
  shows "raised (submit w text s) = Some e \<and>
         transcript (after (submit w text s)) = transcript s @ [user_message w text] \<and>
         posts (submit w text s) = [ollama_payload (strip text)]"
proof -
  from assms(2,3) have "bot_reply_for w (strip text) = Inl e"
    by (simp add: bot_reply_for_def)
  from submit_raises [OF assms(1) this] show ?thesis by simp
qed

theorem submit_keeps_user_message_on_failure_witness:
  "strip (str ''my loan'') \<noteq> [] \<and> classify (strip (str ''my loan'')) = BankingRelated \<and>
   get_ollama_response (post w_down) (strip (str ''my loan'')) = Inl RequestException \<and>
   raised (submit w_down (str ''my loan'') s_fresh) = Some RequestException \<and>
   transcript (after (submit w_down (str ''my loan'') s_fresh)) =
     [user_message w_down (str ''my loan'')]"
proof -
  have h1: "strip (str ''my loan'') \<noteq> []" by (simp add: string_eval)
  have h2: "classify (strip (str ''my loan'')) = BankingRelated" by (simp add: classify_eval)
  have h3: "get_ollama_response (post w_down) (strip (str ''my loan'')) = Inl RequestException"
    by (simp add: get_ollama_response_def w_down_def)
  have t: "transcript s_fresh = []" by (simp add: s_fresh_def initial_def transcript_def)
  from submit_keeps_user_message_on_failure [OF h1 h2 h3, of s_fresh] h1 h2 h3 t
  show ?thesis by simp
qed

text \<open>
  C1, as amended. Nothing in the turn catches a failure of the model call. On a banking
  text, when the request fails, the body is not JSON, the JSON value is not an object or
  the response field is not a string, the error leaves \<open>send_message\<close> and no bot message
  is stored. A missing response field is no failure: the turn completes and stores a bot
  message with empty content.
\<close>

theorem backend_failure_propagates:
  assumes "strip text \<noteq> []" and "classify (strip text) = BankingRelated"
  shows
    "(post w (ollama_payload (strip text)) = Failed \<longrightarrow>
        raised (submit w text s) = Some RequestException \<and>
        transcript (after (submit w text s)) = transcript s @ [user_message w text]) \<and>
     (post w (ollama_payload (strip text)) = Replied NotJson \<longrightarrow>
        raised (submit w text s) = Some JSONDecodeError \<and>
        transcript (after (submit w text s)) = transcript s @ [user_message w text]) \<and>
     (post w (ollama_payload (strip text)) \<in> {Replied NotObject, Replied (Object (Some JOther))} \<longrightarrow>
        raised (submit w text s) = Some AttributeError \<and>
        transcript (after (submit w text s)) = transcript s @ [user_message w text]) \<and>
     (post w (ollama_payload (strip text)) = Replied (Object None) \<longrightarrow>
        raised (submit w text s) = None \<and>
        transcript (after (submit w text s)) =
          transcript s @ [user_message w text, bot_message w []])"
proof -
  have r: "bot_reply_for w (strip text) = get_ollama_response (post w) (strip text)"
    using assms(2) by (simp add: bot_reply_for_def)
  have a: "post w (ollama_payload (strip text)) = Failed \<Longrightarrow>
      bot_reply_for w (strip text) = Inl RequestException"
    by (simp add: r get_ollama_response_def)
  have b: "post w (ollama_payload (strip text)) = Replied NotJson \<Longrightarrow>
      bot_reply_for w (strip text) = Inl JSONDecodeError"
    by (simp add: r get_ollama_response_def)
  have c: "post w (ollama_payload (strip text)) \<in> {Replied NotObject, Replied (Object (Some JOther))} \<Longrightarrow>
      bot_reply_for w (strip text) = Inl AttributeError"
    by (auto simp: r get_ollama_response_def)
  have d: "post w (ollama_payload (strip text)) = Replied (Object None) \<Longrightarrow>
      bot_reply_for w (strip text) = Inr []"
    by (simp add: r get_ollama_response_def sanitize_Nil)
  show ?thesis
    using submit_raises [OF assms(1) a, of s] submit_raises [OF assms(1) b, of s]
      submit_raises [OF assms(1) c, of s] submit_returns [OF assms(1) d, of s]
    by simp
qed

theorem backend_failure_propagates_witness:
  "strip (str ''atm'') \<noteq> [] \<and> classify (strip (str ''atm'')) = BankingRelated \<and>
   post w_nofield (ollama_payload (strip (str ''atm''))) = Replied (Object None) \<and>
   raised (submit w_nofield (str ''atm'') s_fresh) = None \<and>
   transcript (after (submit w_nofield (str ''atm'') s_fresh)) =
     [user_message w_nofield (str ''atm''), bot_message w_nofield []] \<and>
   post w_down (ollama_payload (strip (str ''atm''))) = Failed \<and>
   raised (submit w_down (str ''atm'') s_fresh) = Some RequestException"
proof -
  have h1: "strip (str ''atm'') \<noteq> []" by (simp add: string_eval)
  have h2: "classify (strip (str ''atm'')) = BankingRelated" by (simp add: classify_eval)
  have p1: "post w_nofield (ollama_payload (strip (str ''atm''))) = Replied (Object None)"
    by (simp add: w_nofield_def)
  have p2: "post w_down (ollama_payload (strip (str ''atm''))) = Failed"
    by (simp add: w_down_def)
  have t: "transcript s_fresh = []" by (simp add: s_fresh_def initial_def transcript_def)
  from backend_failure_propagates [OF h1 h2, of w_nofield s_fresh]
    backend_failure_propagates [OF h1 h2, of w_down s_fresh] h1 h2 p1 p2 t
  show ?thesis by simp
qed

text \<open>
  C1 as stated fails: with a model service that cannot be reached, the turn on a banking
  text raises, and the transcript ends with the user message; no apology is stored.
\<close>

theorem backend_failure_counterexample:
  "raised (submit w_down (str ''card'') s_fresh) = Some RequestException \<and>
   transcript (after (submit w_down (str ''card'') s_fresh)) = [user_message w_down (str ''card'')]"
proof -
  have h1: "strip (str ''card'') \<noteq> []" by (simp add: string_eval)
  have h2: "bot_reply_for w_down (strip (str ''card'')) = Inl RequestException"
    by (simp add: bot_reply_for_def classify_eval get_ollama_response_def w_down_def)
  have t: "transcript s_fresh = []" by (simp add: s_fresh_def initial_def transcript_def)
  show ?thesis unfolding submit_raises [OF h1 h2] using t by simp
qed

section \<open>Saving and selecting chats\<close>


text \<open>
  C7. Saving a chat whose transcript is empty leaves the history (and the whole state) as
  it is; saving a chat with messages makes the history longer by one, the new entry being
  in front. The entry carries the chat id, the derived title and a copy of the transcript.
\<close>

theorem save_chat_archive:
  "(transcript s = [] \<longrightarrow> save_chat s = s) \<and>
   (transcript s \<noteq> [] \<longrightarrow>
      chat_history (save_chat s) =
        \<lparr>ident = chat_id s, title = generate_chat_title (transcript s),
         messages = next_ref s\<rparr> # chat_history s \<and>
      length (chat_history (save_chat s)) = Suc (length (chat_history s)) \<and>
      heap (save_chat s) (next_ref s) = transcript s)"
  by (simp add: save_chat_def transcript_def Let_def)

lemma s_fresh_transcript: "transcript s_fresh = []"
  by (simp add: s_fresh_def initial_def transcript_def)

lemma s_hi_eq:
  "s_hi = (append_current (bot_message w_down greeting_reply)
             (append_current (user_message w_down (str ''hi'')) (s_fresh\<lparr>user_input := str ''hi''\<rparr>)))
          \<lparr>user_input := []\<rparr>"
proof -
  have h1: "strip (str ''hi'') \<noteq> []" by (simp add: string_eval)
  have h2: "bot_reply_for w_down (strip (str ''hi'')) = Inr greeting_reply"
    by (simp add: bot_reply_for_def classify_eval)
  show ?thesis unfolding s_hi_def submit_returns [OF h1 h2] by simp
qed

lemma s_hi_transcript:
  "transcript s_hi = [user_message w_down (str ''hi''), bot_message w_down greeting_reply]"
  by (simp add: s_hi_eq s_fresh_transcript)

lemma s_hi_fields:
  "chat_history s_hi = []" "chat_id s_hi = str ''a''" "next_ref s_hi = 1" "current_chat s_hi = 0"
  by (simp_all add: s_hi_eq s_fresh_def initial_def)

theorem save_chat_archive_witness:
  "transcript s_fresh = [] \<and> save_chat s_fresh = s_fresh \<and> transcript s_hi \<noteq> [] \<and>
   chat_history (save_chat s_hi) =
     [\<lparr>ident = str ''a'', title = str ''hi'', messages = 1\<rparr>] \<and>
   heap (save_chat s_hi) 1 = transcript s_hi"
proof -
  have t: "generate_chat_title (transcript s_hi) = str ''hi''"
    by (simp add: s_hi_transcript user_message_def string_eval)
  have n: "transcript s_hi \<noteq> []" by (simp add: s_hi_transcript)
  from save_chat_archive [of s_fresh] save_chat_archive [of s_hi] s_fresh_transcript n t
  show ?thesis by (simp add: s_hi_fields)
qed























section \<open>The safety cleanup\<close>

lemma remove_all_absent: "\<not> py_in old s \<Longrightarrow> remove_all old s = s"
  by (induction s) simp_all

lemma prefix_of_shorter:
  assumes "prefix xs (ys @ zs)" and "length xs \<le> length ys"
  shows "prefix xs ys"
  using assms by (metis prefix_length_prefix prefixI)

lemma remove_all_first:
  assumes "old \<noteq> []" and "\<not> py_in old (pre @ butlast old)"
  shows "remove_all old (pre @ old @ rest) = pre @ remove_all old rest"
  using assms(2)
proof (induction pre)
  case Nil
  from assms(1) obtain c cs where old: "old = c # cs" by (cases old) auto
  have "remove_all old ((c # cs) @ rest) = remove_all old (drop (length old) ((c # cs) @ rest))"
    by (simp add: old)
  then show ?case by (simp add: old)
next
  case (Cons p ps)
  from Cons.prems have np: "\<not> prefix old ((p # ps) @ butlast old)"
    and nin: "\<not> py_in old (ps @ butlast old)" by simp_all
  have "\<not> prefix old ((p # ps) @ old @ rest)"
  proof
    assume a: "prefix old ((p # ps) @ old @ rest)"
    have e: "(p # ps) @ old @ rest = ((p # ps) @ butlast old) @ (last old # rest)"
      using assms(1) by simp
    have "prefix old (((p # ps) @ butlast old) @ (last old # rest))"
      by (rule a [unfolded e])
    moreover have "length old \<le> length ((p # ps) @ butlast old)" using assms(1) by simp
    ultimately have "prefix old ((p # ps) @ butlast old)" by (rule prefix_of_shorter)
    with np show False ..
  qed
  then have "remove_all old ((p # ps) @ old @ rest) = p # remove_all old (ps @ old @ rest)"
    by simp
  with Cons.IH [OF nin] show ?case by simp
qed

lemma last_dropWhile_nonempty: "dropWhile P xs \<noteq> [] \<Longrightarrow> last (dropWhile P xs) = last xs"
  by (induction xs) (auto split: if_splits)

lemma strip_ends:
  "strip s = [] \<or> (\<not> isspace (hd (strip s)) \<and> \<not> isspace (last (strip s)))"
proof (cases "strip s = []")
  case True
  then show ?thesis by simp
next
  case False
  let ?t = "dropWhile isspace s"
  let ?u = "dropWhile isspace (rev ?t)"
  from False have u: "?u \<noteq> []" by (simp add: strip_def lstrip_def rstrip_def)
  then have "rev ?t \<noteq> []" by (metis dropWhile.simps(1))
  then have t: "?t \<noteq> []" by (metis rev.simps(1))
  have "last (strip s) = hd ?u" using u by (simp add: strip_def lstrip_def rstrip_def last_rev)
  moreover have "\<not> isspace (hd ?u)" using u by (rule hd_dropWhile)
  moreover have "hd (strip s) = last ?u" using u by (simp add: strip_def lstrip_def rstrip_def hd_rev)
  moreover have "last ?u = last (rev ?t)" using u by (rule last_dropWhile_nonempty)
  moreover have "last (rev ?t) = hd ?t" using t by (simp add: last_rev)
  moreover have "\<not> isspace (hd ?t)" using t by (rule hd_dropWhile)
  ultimately show ?thesis by simp
qed

lemma strip_decomposition:
  "\<exists>l r. s = l @ strip s @ r \<and> list_all isspace l \<and> list_all isspace r"
proof -
  let ?t = "dropWhile isspace s"
  have 1: "s = takeWhile isspace s @ ?t" by simp
  have st: "strip s = rev (dropWhile isspace (rev ?t))"
    by (simp add: strip_def lstrip_def rstrip_def)
  have 2: "?t = strip s @ rev (takeWhile isspace (rev ?t))"
    unfolding st by (metis rev_append rev_rev_ident takeWhile_dropWhile_id)
  have 3: "list_all isspace (takeWhile isspace s)"
    by (simp add: list_all_iff) (meson set_takeWhileD)
  have 4: "list_all isspace (rev (takeWhile isspace (rev ?t)))"
    by (simp add: list_all_iff) (meson set_takeWhileD)
  from 1 2 have "s = takeWhile isspace s @ strip s @ rev (takeWhile isspace (rev ?t))" by simp
  with 3 4 show ?thesis by blast
qed

lemma sanitize_unfold:
  "sanitize raw =
     strip (remove_all (str ''Customer Question'')
        (remove_all (str ''Answer only'') (remove_all (str ''You are BankBot'') raw)))"
  by (simp add: sanitize_def blocked_phrases_def)

text \<open>
  C2, as amended. The reply of the model is cleaned by three passes of plain substring
  removal, for \<^verbatim>\<open>"You are BankBot"\<close>, then \<^verbatim>\<open>"Answer only"\<close>, then
  \<^verbatim>\<open>"Customer Question"\<close>, followed by stripping white space at both ends: a pass drops
  the first occurrence of its phrase and goes on behind it, a text without the phrases is
  only stripped, and what is stripped is white space only. The raw reply
  \<^verbatim>\<open>"You are BankBot, your balance is $500"\<close> becomes \<^verbatim>\<open>", your balance is $500"\<close>:
  the comma that followed the phrase stays.
\<close>

theorem sanitize_removes_phrases:
  "sanitize (str ''You are BankBot, your balance is $500'') = str '', your balance is $500'' \<and>
   sanitize raw =
     strip (remove_all (str ''Customer Question'')
        (remove_all (str ''Answer only'') (remove_all (str ''You are BankBot'') raw))) \<and>
   (p \<in> set blocked_phrases \<and> \<not> py_in p (pre @ butlast p) \<longrightarrow>
      remove_all p (pre @ p @ rest) = pre @ remove_all p rest) \<and>
   (\<not> py_in p raw \<longrightarrow> remove_all p raw = raw) \<and>
   ((\<forall>q \<in> set blocked_phrases. \<not> py_in q raw) \<longrightarrow> sanitize raw = strip raw) \<and>
   (\<exists>l r. raw = l @ strip raw @ r \<and> list_all isspace l \<and> list_all isspace r) \<and>
   (sanitize raw = [] \<or> (\<not> isspace (hd (sanitize raw)) \<and> \<not> isspace (last (sanitize raw))))"
proof -
  have ex: "sanitize (str ''You are BankBot, your balance is $500'') = str '', your balance is $500''"
    by (simp add: sanitize_unfold string_eval)
  have first: "p \<in> set blocked_phrases \<and> \<not> py_in p (pre @ butlast p) \<longrightarrow>
      remove_all p (pre @ p @ rest) = pre @ remove_all p rest"
  proof
    assume a: "p \<in> set blocked_phrases \<and> \<not> py_in p (pre @ butlast p)"
    then have "p \<noteq> []" by (auto simp: blocked_phrases_def str_def)
    with a show "remove_all p (pre @ p @ rest) = pre @ remove_all p rest"
      by (simp add: remove_all_first)
  qed
  have none: "(\<forall>q \<in> set blocked_phrases. \<not> py_in q raw) \<longrightarrow> sanitize raw = strip raw"
    by (simp add: sanitize_unfold blocked_phrases_def remove_all_absent)
  have ends: "sanitize raw = [] \<or> (\<not> isspace (hd (sanitize raw)) \<and> \<not> isspace (last (sanitize raw)))"
    unfolding sanitize_unfold by (rule strip_ends)
  from ex sanitize_unfold [of raw] first none strip_decomposition [of raw] ends
  show ?thesis by (simp add: remove_all_absent)
qed

theorem sanitize_removes_phrases_witness:
  "str ''Answer only'' \<in> set blocked_phrases \<and>
   \<not> py_in (str ''Answer only'') (str ''ok '' @ butlast (str ''Answer only'')) \<and>
   remove_all (str ''Answer only'') (str ''ok '' @ str ''Answer only'' @ str ''!'') = str ''ok !'' \<and>
   \<not> (\<exists>q \<in> set blocked_phrases. py_in q (str '' Visit a branch. '')) \<and>
   sanitize (str '' Visit a branch. '') = str ''Visit a branch.''"
proof -
  have h1: "str ''Answer only'' \<in> set blocked_phrases" by (simp add: blocked_phrases_def)
  have h2: "\<not> py_in (str ''Answer only'') (str ''ok '' @ butlast (str ''Answer only''))"
    by (simp add: string_eval)
  have h3: "\<forall>q \<in> set blocked_phrases. \<not> py_in q (str '' Visit a branch. '')"
    by (simp add: blocked_phrases_def string_eval)
  have e1: "remove_all (str ''Answer only'') (str ''!'') = str ''!''" by (simp add: string_eval)
  have e2: "strip (str '' Visit a branch. '') = str ''Visit a branch.''" by (simp add: string_eval)
  have e3: "str ''ok '' @ str ''!'' = str ''ok !''" by (simp add: str_def)
  from sanitize_removes_phrases
    [of "str '' Visit a branch. ''" "str ''Answer only''" "str ''ok ''" "str ''!''"] h1 h2 h3 e1 e2 e3
  show ?thesis by auto
qed

text \<open>
  C2 as stated fails in its example: the cleaned reply begins with the comma and the
  space that followed the removed phrase.
\<close>

theorem sanitize_example_counterexample:
  "sanitize (str ''You are BankBot, your balance is $500'') = str '', your balance is $500'' \<and>
   sanitize (str ''You are BankBot, your balance is $500'') \<noteq> str ''your balance is $500''"
  by (simp add: sanitize_unfold string_eval)

end
